theory Spec2Isabelle
  imports Main "HOL-Library.Sublist"
begin

section \<open>luaamath: the Lua binding of the AsciiMath to MathML converter\<close>

text \<open>
  The binding (\<^verbatim>\<open>src/tools/amath/luaamath.c\<close>) has two functions:
  \<^verbatim>\<open>lua_amath_to_mathml\<close>, registered as \<^verbatim>\<open>amath.to_mathml\<close>, and the module
  initialiser \<^verbatim>\<open>luaopen_amath\<close>. Both are sequences of calls into the Lua C API, the
  external converter \<^verbatim>\<open>amath_to_mathml\<close> and \<^verbatim>\<open>free\<close>. The embedding threads two
  states through those calls: the Lua state \<open>L\<close> and the C heap \<open>h\<close> of the converter's
  buffers. A raised Lua error is a value (\<open>Inl\<close>); the state returned beside it is the
  state at the moment of the raise.

  The Lua C API functions are modelled as the Lua reference manual describes them.
  Three things the source takes from outside are parameters: \<open>conv\<close>, what the
  external converter computes (a function of its input); \<open>n2s\<close>, how Lua prints a
  number; and \<^verbatim>\<open>LUA_VERSION_NUM\<close>.

  Most functions of the Lua C API can raise a memory error when the Lua allocator
  cannot serve them. Of those, the one of \<^verbatim>\<open>lua_pushstring\<close> is modelled (the
  parameter \<open>mem\<close> says whether the allocator serves the push): it is the one call the
  binding makes while it holds a buffer of the converter. At the other calls the
  binding holds no buffer, and their memory errors are not modelled; nor are
  metamethods.
\<close>

subsection \<open>Lua values and the Lua state\<close>

type_synonym ref = nat
type_synonym addr = nat

text \<open>The C functions a Lua value can hold: the binding's own, and any other.\<close>

datatype c_function = Lua_amath_to_mathml | Other_c_function nat

text \<open>
  The Lua types. Numbers are kept abstract (\<open>'n\<close>: \<^verbatim>\<open>lua_Number\<close>, and
  \<^verbatim>\<open>lua_Integer\<close> from Lua 5.3 on); how Lua prints one is a parameter \<open>n2s\<close> of the
  functions that need it. A string is a byte sequence with its length, so it may hold
  zero bytes. Tables are objects of the Lua heap, held by reference.
\<close>

datatype 'n lua_value =
    LNil
  | LBoolean bool
  | LLightUserdata addr
  | LNumber 'n
  | LString string
  | LTable ref
  | LFunction nat
  | LCFunction c_function
  | LUserdata nat
  | LThread nat

type_synonym 'n lua_table = "'n lua_value \<rightharpoonup> 'n lua_value"

text \<open>
  \<open>stack\<close> is the frame of the running C function: index 1 is its first argument, the
  last element is the top. \<open>caller_where\<close> is what \<^verbatim>\<open>luaL_where(L, 1)\<close> yields: the
  position \<^verbatim>\<open>"chunk:line: "\<close> of the caller, or the empty string when the caller has
  no line information. \<open>tables\<close> are the table objects, a reference being an index;
  \<open>globals\<close> is the table of global variables and \<open>loaded\<close> is \<^verbatim>\<open>package.loaded\<close>, both
  by field name.
\<close>

record 'n lua_State =
  stack :: "'n lua_value list"
  caller_where :: string
  tables :: "'n lua_table list"
  globals :: "string \<rightharpoonup> 'n lua_value"
  loaded :: "string \<rightharpoonup> 'n lua_value"

subsection \<open>The C heap of the external converter\<close>

text \<open>
  \<open>live\<close> holds the blocks that are allocated and not yet freed, each with the bytes it
  holds in front of its terminating zero. \<open>log\<close> records, in order, every call of the
  converter and every allocation and release of a block.
\<close>

datatype event = Converter_Call string | Alloc addr | Release addr

record c_heap =
  live :: "(addr \<times> string) list"
  log :: "event list"

text \<open>
  How a call ends when it does not return: a Lua error raised by \<^verbatim>\<open>luaL_checkstring\<close>
  (argument index and expected type; the rendered message also names the function and
  the actual type), a Lua error raised by \<^verbatim>\<open>luaL_error\<close> (the whole message), the
  memory error of Lua (\<^verbatim>\<open>LUA_ERRMEM\<close>), or undefined behaviour of C (reading or freeing
  a block that is not live, running over the end of an array).
\<close>

datatype abort =
    Bad_Argument nat string
  | Error_Message string
  | Memory_Error
  | Undefined_Behaviour

subsection \<open>C strings\<close>

text \<open>What a reader of a \<^verbatim>\<open>const char *\<close> sees of a byte sequence: the bytes in front
  of the first zero byte.\<close>

definition c_str :: "string \<Rightarrow> string" where
  "c_str bs = takeWhile (\<lambda>c. c \<noteq> CHR 0x00) bs"

subsection \<open>The Lua C API\<close>

text \<open>The value at a positive stack index; \<open>None\<close> is \<^verbatim>\<open>LUA_TNONE\<close> (no value there).\<close>

definition index2value :: "'n lua_State \<Rightarrow> nat \<Rightarrow> 'n lua_value option" where
  "index2value L idx =
     (if 1 \<le> idx \<and> idx \<le> length (stack L) then Some (stack L ! (idx - 1)) else None)"

text \<open>
  \<^verbatim>\<open>lua_tolstring\<close>: a string yields a pointer to its bytes; a number is converted to
  a string in place, in the stack slot, and yields that string; anything else yields
  \<^verbatim>\<open>NULL\<close> (\<open>None\<close>).
\<close>

definition lua_tolstring ::
  "('n \<Rightarrow> string) \<Rightarrow> 'n lua_State \<Rightarrow> nat \<Rightarrow> string option \<times> 'n lua_State" where
  "lua_tolstring n2s L idx =
     (case index2value L idx of
        None \<Rightarrow> (None, L)
      | Some v \<Rightarrow>
          (case v of
             LString s \<Rightarrow> (Some s, L)
           | LNumber n \<Rightarrow>
               (Some (n2s n), L\<lparr>stack := (stack L)[idx - 1 := LString (n2s n)]\<rparr>)
           | _ \<Rightarrow> (None, L)))"

text \<open>\<^verbatim>\<open>lua_isstring\<close>: the value is a string or a number (which converts to one).\<close>

definition lua_isstring :: "'n lua_State \<Rightarrow> nat \<Rightarrow> bool" where
  "lua_isstring L idx =
     (case index2value L idx of
        None \<Rightarrow> False
      | Some v \<Rightarrow> (case v of LString _ \<Rightarrow> True | LNumber _ \<Rightarrow> True | _ \<Rightarrow> False))"

text \<open>
  \<^verbatim>\<open>luaL_checkstring(L, arg)\<close> is \<^verbatim>\<open>luaL_checklstring(L, arg, NULL)\<close>: it takes
  \<^verbatim>\<open>lua_tolstring\<close> and raises the type error of argument \<open>arg\<close> when that is
  \<^verbatim>\<open>NULL\<close>. Its C result is a pointer, so the result type keeps \<open>None\<close> for \<^verbatim>\<open>NULL\<close>.
\<close>

definition luaL_checkstring ::
  "('n \<Rightarrow> string) \<Rightarrow> 'n lua_State \<Rightarrow> nat \<Rightarrow> (abort + string option) \<times> 'n lua_State" where
  "luaL_checkstring n2s L arg =
     (case lua_tolstring n2s L arg of
        (None, L') \<Rightarrow> (Inl (Bad_Argument arg ''string''), L')
      | (Some s, L') \<Rightarrow> (Inr (Some s), L'))"

text \<open>\<^verbatim>\<open>luaL_error\<close> raises the formatted message behind the caller's position.\<close>

definition luaL_error :: "'n lua_State \<Rightarrow> string \<Rightarrow> abort" where
  "luaL_error L msg = Error_Message (caller_where L @ msg)"

text \<open>
  \<^verbatim>\<open>lua_pushstring\<close> pushes a copy of the zero-terminated string it is given. The copy
  needs memory of the Lua allocator, and the function raises the memory error when it
  gets none (the manual marks it \<^verbatim>\<open>[-0, +1, m]\<close>); \<open>mem\<close> says whether the allocator
  serves the request.
\<close>

definition lua_pushstring :: "bool \<Rightarrow> 'n lua_State \<Rightarrow> string \<Rightarrow> abort + 'n lua_State" where
  "lua_pushstring mem L s =
     (if mem then Inr (L\<lparr>stack := stack L @ [LString (c_str s)]\<rparr>) else Inl Memory_Error)"

subsection \<open>The external converter and the C allocator\<close>

text \<open>An address that no live block has, and that is not \<^verbatim>\<open>NULL\<close> (0).\<close>

definition fresh_addr :: "(addr \<times> string) list \<Rightarrow> addr" where
  "fresh_addr bs = Suc (foldr max (map fst bs) 0)"

text \<open>
  Modelled from the spec: \<^verbatim>\<open>amath_to_mathml\<close> is declared in \<^verbatim>\<open>src/amath.h\<close> and
  defined in the converter library, outside the binding. It accepts a zero-terminated
  byte string, which it only reads, and returns either a newly allocated
  zero-terminated byte string, owned by the caller, or \<^verbatim>\<open>NULL\<close>. What it computes is
  the parameter \<open>conv\<close>, applied to the C string it is given.
\<close>

definition amath_to_mathml ::
  "(string \<Rightarrow> string option) \<Rightarrow> string \<Rightarrow> c_heap \<Rightarrow> addr option \<times> c_heap" where
  "amath_to_mathml conv asciimath h =
     (case conv (c_str asciimath) of
        None \<Rightarrow> (None, h\<lparr>log := log h @ [Converter_Call (c_str asciimath)]\<rparr>)
      | Some out \<Rightarrow>
          (let p = fresh_addr (live h)
           in (Some p, h\<lparr>live := (p, out) # live h,
                         log := log h @ [Converter_Call (c_str asciimath), Alloc p]\<rparr>)))"

text \<open>The bytes of the block at \<open>p\<close>; \<open>None\<close> when no live block is there.\<close>

definition block_at :: "c_heap \<Rightarrow> addr \<Rightarrow> string option" where
  "block_at h p = map_of (live h) p"

text \<open>\<^verbatim>\<open>free(p)\<close> for a non-null \<open>p\<close>; \<open>None\<close> when \<open>p\<close> is not a live block.\<close>

definition free :: "addr \<Rightarrow> c_heap \<Rightarrow> c_heap option" where
  "free p h =
     (case block_at h p of
        None \<Rightarrow> None
      | Some _ \<Rightarrow> Some (h\<lparr>live := filter (\<lambda>b. fst b \<noteq> p) (live h),
                           log := log h @ [Release p]\<rparr>))"

subsection \<open>The conversion function\<close>

text \<open>
  \<^verbatim>\<open>lua_amath_to_mathml\<close>, statement by statement, with the answer \<open>mem\<close> of the Lua
  allocator to the push as its first parameter. A Lua error leaves the function at
  once, so a memory error of the push leaves it in front of \<^verbatim>\<open>free(mathml)\<close>.
\<close>

definition lua_amath_to_mathml_mem ::
  "bool \<Rightarrow> (string \<Rightarrow> string option) \<Rightarrow> ('n \<Rightarrow> string) \<Rightarrow> 'n lua_State \<Rightarrow> c_heap
     \<Rightarrow> (abort + nat) \<times> 'n lua_State \<times> c_heap" where
  "lua_amath_to_mathml_mem mem conv n2s L h =
     (case luaL_checkstring n2s L 1 of
        (Inl e, L1) \<Rightarrow> (Inl e, L1, h)
      | (Inr asciimath, L1) \<Rightarrow>
          (case asciimath of
             None \<Rightarrow>
               (Inl (luaL_error L1 ''amath.to_mathml: expected string argument''), L1, h)
           | Some a \<Rightarrow>
               (case amath_to_mathml conv a h of
                  (None, h1) \<Rightarrow>
                    (Inl (luaL_error L1
                       (''amath.to_mathml: conversion failed for input: '' @ c_str a)),
                     L1, h1)
                | (Some mathml, h1) \<Rightarrow>
                    (case block_at h1 mathml of
                       None \<Rightarrow> (Inl Undefined_Behaviour, L1, h1)
                     | Some bytes \<Rightarrow>
                         (case lua_pushstring mem L1 bytes of
                            Inl e \<Rightarrow> (Inl e, L1, h1)
                          | Inr L2 \<Rightarrow>
                              (case free mathml h1 of
                                 None \<Rightarrow> (Inl Undefined_Behaviour, L2, h1)
                               | Some h2 \<Rightarrow> (Inr 1, L2, h2)))))))"

text \<open>The call in which the Lua allocator serves the push.\<close>

definition lua_amath_to_mathml ::
  "(string \<Rightarrow> string option) \<Rightarrow> ('n \<Rightarrow> string) \<Rightarrow> 'n lua_State \<Rightarrow> c_heap
     \<Rightarrow> (abort + nat) \<times> 'n lua_State \<times> c_heap" where
  "lua_amath_to_mathml conv n2s L h = lua_amath_to_mathml_mem True conv n2s L h"

subsection \<open>What a caller observes of a call\<close>

text \<open>The values a C function returns when its result is \<open>n\<close>: the top \<open>n\<close> of its
  stack.\<close>

definition results :: "nat \<Rightarrow> 'n lua_State \<Rightarrow> 'n lua_value list" where
  "results n L = drop (length (stack L) - n) (stack L)"

text \<open>The events between the heap \<open>h\<close> before a call and the heap \<open>h'\<close> after it.\<close>

definition events_of :: "c_heap \<Rightarrow> c_heap \<Rightarrow> event list" where
  "events_of h h' = drop (length (log h)) (log h')"

fun is_converter_call :: "event \<Rightarrow> bool" where
  "is_converter_call (Converter_Call _) = True"
| "is_converter_call _ = False"

subsection \<open>The function table and module initialisation\<close>

record luaL_Reg =
  name :: "string option"
  func :: "c_function option"

text \<open>The array ends with the sentinel \<^verbatim>\<open>{NULL, NULL}\<close>.\<close>

definition amathlib :: "luaL_Reg list" where
  "amathlib =
     [\<lparr>name = Some ''to_mathml'', func = Some Lua_amath_to_mathml\<rparr>,
      \<lparr>name = None, func = None\<rparr>]"

text \<open>\<^verbatim>\<open>lua_newtable\<close> creates an empty table and pushes it.\<close>

definition lua_newtable :: "'n lua_State \<Rightarrow> 'n lua_State" where
  "lua_newtable L =
     L\<lparr>stack := stack L @ [LTable (length (tables L))], tables := tables L @ [Map.empty]\<rparr>"

text \<open>
  The loop of \<^verbatim>\<open>luaL_setfuncs\<close> and of \<^verbatim>\<open>luaL_register\<close>, with no upvalues:
  \<^verbatim>\<open>for (; l->name != NULL; l++)\<close> stores each function under its name. An array
  without the sentinel is read over its end (\<open>None\<close>). A named entry without a function
  is not in \<open>amathlib\<close>; Lua 5.4 stores \<^verbatim>\<open>false\<close> for it.
\<close>

fun setfuncs_loop :: "luaL_Reg list \<Rightarrow> 'n lua_table \<Rightarrow> 'n lua_table option" where
  "setfuncs_loop [] t = None"
| "setfuncs_loop (l # ls) t =
     (case name l of
        None \<Rightarrow> Some t
      | Some n \<Rightarrow>
          setfuncs_loop ls
            (t(LString n \<mapsto> (case func l of None \<Rightarrow> LBoolean False | Some f \<Rightarrow> LCFunction f))))"

text \<open>\<^verbatim>\<open>luaL_typename\<close> of a value.\<close>

fun lua_typename :: "'n lua_value \<Rightarrow> string" where
  "lua_typename LNil = ''nil''"
| "lua_typename (LBoolean _) = ''boolean''"
| "lua_typename (LLightUserdata _) = ''userdata''"
| "lua_typename (LNumber _) = ''number''"
| "lua_typename (LString _) = ''string''"
| "lua_typename (LTable _) = ''table''"
| "lua_typename (LFunction _) = ''function''"
| "lua_typename (LCFunction _) = ''function''"
| "lua_typename (LUserdata _) = ''userdata''"
| "lua_typename (LThread _) = ''thread''"

text \<open>
  \<^verbatim>\<open>luaL_setfuncs(L, l, 0)\<close> registers the functions of \<open>l\<close> in the table on the top
  of the stack. Indexing a value that is not a table raises a Lua error; an empty stack
  or a dangling reference is a misuse of the API.
\<close>

definition luaL_setfuncs ::
  "'n lua_State \<Rightarrow> luaL_Reg list \<Rightarrow> (abort + unit) \<times> 'n lua_State" where
  "luaL_setfuncs L l =
     (if stack L = [] then (Inl Undefined_Behaviour, L)
      else
        (case last (stack L) of
           LTable r \<Rightarrow>
             (if r < length (tables L) then
                (case setfuncs_loop l (tables L ! r) of
                   None \<Rightarrow> (Inl Undefined_Behaviour, L)
                 | Some t \<Rightarrow> (Inr (), L\<lparr>tables := (tables L)[r := t]\<rparr>))
              else (Inl Undefined_Behaviour, L))
         | v \<Rightarrow>
             (Inl (Error_Message (''attempt to index a '' @ lua_typename v @ '' value'')), L)))"

text \<open>\<^verbatim>\<open>lua_istable\<close> of a value.\<close>

fun is_table :: "'n lua_value \<Rightarrow> bool" where
  "is_table (LTable _) = True"
| "is_table _ = False"

text \<open>A field of a table kept by field name; an absent field reads as \<^verbatim>\<open>nil\<close>.\<close>

definition getfield :: "(string \<rightharpoonup> 'n lua_value) \<Rightarrow> string \<Rightarrow> 'n lua_value" where
  "getfield m k = (case m k of None \<Rightarrow> LNil | Some v \<Rightarrow> v)"

text \<open>
  \<^verbatim>\<open>luaL_register(L, libname, l)\<close> of Lua 5.1, for a \<open>libname\<close> without dots: it reuses
  the table in \<^verbatim>\<open>package.loaded[libname]\<close>, else the table in the global variable
  \<open>libname\<close>, else it creates a table and stores it in both; a global of that name
  that is neither nil nor a table is a name conflict. It registers the functions of
  \<open>l\<close> in that table and leaves the table on the top of the stack.
\<close>

definition luaL_register ::
  "'n lua_State \<Rightarrow> string \<Rightarrow> luaL_Reg list \<Rightarrow> (abort + unit) \<times> 'n lua_State" where
  "luaL_register L libname l =
     (case getfield (loaded L) libname of
        LTable r \<Rightarrow> luaL_setfuncs (L\<lparr>stack := stack L @ [LTable r]\<rparr>) l
      | _ \<Rightarrow>
          (case getfield (globals L) libname of
             LNil \<Rightarrow>
               luaL_setfuncs
                 (L\<lparr>stack := stack L @ [LTable (length (tables L))],
                    tables := tables L @ [Map.empty],
                    globals := (globals L)(libname \<mapsto> LTable (length (tables L))),
                    loaded := (loaded L)(libname \<mapsto> LTable (length (tables L)))\<rparr>) l
           | LTable r \<Rightarrow>
               luaL_setfuncs
                 (L\<lparr>stack := stack L @ [LTable r],
                    loaded := (loaded L)(libname \<mapsto> LTable r)\<rparr>) l
           | _ \<Rightarrow>
               (Inl (luaL_error L
                  (''name conflict for module '' @ [CHR 0x27] @ libname @ [CHR 0x27])), L)))"

text \<open>
  \<^verbatim>\<open>luaopen_amath\<close>. The source defines, for \<^verbatim>\<open>LUA_VERSION_NUM > 501\<close>, the macro
  \<^verbatim>\<open>luaL_register(L,name,reg)\<close> as \<^verbatim>\<open>lua_newtable(L);luaL_setfuncs(L,reg,0)\<close>;
  for Lua 5.1 the call is the library's \<^verbatim>\<open>luaL_register\<close>. \<^verbatim>\<open>LUA_VERSION_NUM\<close> comes
  from \<^verbatim>\<open>lua.h\<close> and is the first parameter.
\<close>

definition luaopen_amath :: "nat \<Rightarrow> 'n lua_State \<Rightarrow> (abort + nat) \<times> 'n lua_State" where
  "luaopen_amath LUA_VERSION_NUM L =
     (case (if 501 < LUA_VERSION_NUM then luaL_setfuncs (lua_newtable L) amathlib
            else luaL_register L ''amath'' amathlib) of
        (Inl e, L') \<Rightarrow> (Inl e, L')
      | (Inr _, L') \<Rightarrow> (Inr 1, L'))"

subsection \<open>Example inputs\<close>

text \<open>\<^verbatim>\<open>lua_Integer\<close> to string (\<^verbatim>\<open>"%d"\<close>), a number format for the examples.\<close>

function nat_digits :: "nat \<Rightarrow> string" where
  "nat_digits n =
     (if n < 10 then [''0123456789'' ! n]
      else nat_digits (n div 10) @ [''0123456789'' ! (n mod 10)])"
  by pat_completeness auto
termination
  by (relation "measure (\<lambda>n. n)") auto

definition lua_integer_tostring :: "int \<Rightarrow> string" where
  "lua_integer_tostring i =
     (if i < 0 then CHR ''-'' # nat_digits (nat (- i)) else nat_digits (nat i))"

text \<open>The frame of a call with the arguments \<open>args\<close> from the position \<open>w\<close>, in an
  interpreter with no tables, globals or loaded modules; and a heap with no blocks.\<close>

definition call_frame :: "string \<Rightarrow> 'n lua_value list \<Rightarrow> 'n lua_State" where
  "call_frame w args =
     \<lparr>stack = args, caller_where = w, tables = [], globals = Map.empty, loaded = Map.empty\<rparr>"

definition empty_heap :: c_heap where
  "empty_heap = \<lparr>live = [], log = []\<rparr>"

text \<open>A converter that knows two formulas and rejects everything else.\<close>

definition example_conv :: "string \<Rightarrow> string option" where
  "example_conv s =
     (if s = ''x^2'' then Some ''<math><msup><mi>x</mi><mn>2</mn></msup></math>''
      else if s = ''42'' then Some ''<math><mn>42</mn></math>''
      else None)"

text \<open>
  A Lua 5.1 interpreter in which a script has set the global \<^verbatim>\<open>amath\<close> to a table
  with one field and then requires the module: \<^verbatim>\<open>require\<close> has put its sentinel into
  \<^verbatim>\<open>package.loaded.amath\<close> and calls the initialiser with the module name.
\<close>

definition script_with_global :: "int lua_State" where
  "script_with_global =
     \<lparr>stack = [LString ''amath''], caller_where = [],
      tables = [[LString ''version'' \<mapsto> LString ''1.0'']],
      globals = [''amath'' \<mapsto> LTable 0],
      loaded = [''amath'' \<mapsto> LLightUserdata 0]\<rparr>"

section \<open>Properties\<close>

subsection \<open>The allocator\<close>

lemma foldr_max_upper: "a \<in> set xs \<Longrightarrow> a \<le> foldr max xs (0::nat)"
  by (induction xs) auto

lemma fresh_addr_not_live: "fresh_addr bs \<notin> fst ` set bs"
proof
  assume "fresh_addr bs \<in> fst ` set bs"
  then have "fresh_addr bs \<in> set (map fst bs)" by simp
  then have "fresh_addr bs \<le> foldr max (map fst bs) 0" by (rule foldr_max_upper)
  then show False by (simp add: fresh_addr_def)
qed

lemma filter_fresh: "filter (\<lambda>b. fst b \<noteq> fresh_addr bs) bs = bs"
proof -
  have "\<forall>b \<in> set bs. fst b \<noteq> fresh_addr bs"
    using fresh_addr_not_live [of bs] by force
  then show ?thesis by (simp add: filter_id_conv)
qed

lemma block_at_fresh: "block_at h (fresh_addr (live h)) = None"
  using fresh_addr_not_live [of "live h"]
  by (simp add: block_at_def map_of_eq_None_iff)

subsection \<open>Reading the argument\<close>

lemma tolstring_not_string:
  assumes "\<not> lua_isstring L idx"
  shows "lua_tolstring n2s L idx = (None, L)"
  using assms
  by (simp add: lua_isstring_def lua_tolstring_def split: option.splits lua_value.splits)

lemma tolstring_string:
  assumes "index2value L idx = Some (LString s)"
  shows "lua_tolstring n2s L idx = (Some s, L)"
  using assms by (simp add: lua_tolstring_def)

lemma tolstring_number:
  assumes "index2value L idx = Some (LNumber n)"
  shows "lua_tolstring n2s L idx =
           (Some (n2s n), L\<lparr>stack := (stack L)[idx - 1 := LString (n2s n)]\<rparr>)"
  using assms by (simp add: lua_tolstring_def)

lemma tolstring_frame:
  assumes "lua_tolstring n2s L idx = (p, L1)"
  shows "length (stack L1) = length (stack L) \<and> caller_where L1 = caller_where L
           \<and> tables L1 = tables L \<and> globals L1 = globals L \<and> loaded L1 = loaded L"
  using assms
  by (auto simp: lua_tolstring_def split: option.splits lua_value.splits)

lemma index2value_coerced:
  assumes "index2value L 1 = Some v"
  shows "index2value (L\<lparr>stack := (stack L)[0 := w]\<rparr>) 1 = Some w"
  using assms by (cases "stack L") (simp_all add: index2value_def)

lemma index2value_push:
  assumes "index2value L 1 = Some v"
  shows "index2value (L\<lparr>stack := stack L @ xs\<rparr>) 1 = Some v"
  using assms by (cases "stack L") (simp_all add: index2value_def)

subsection \<open>The call as a function of its argument and of the converter's answer\<close>

lemma to_mathml_mem_cases:
  "lua_amath_to_mathml_mem mem conv n2s L h =
     (case lua_tolstring n2s L 1 of
        (None, L1) \<Rightarrow> (Inl (Bad_Argument 1 ''string''), L1, h)
      | (Some a, L1) \<Rightarrow>
          (case conv (c_str a) of
             None \<Rightarrow>
               (Inl (Error_Message (caller_where L1 @
                       ''amath.to_mathml: conversion failed for input: '' @ c_str a)),
                L1, h\<lparr>log := log h @ [Converter_Call (c_str a)]\<rparr>)
           | Some out \<Rightarrow>
               (if mem then
                  (Inr 1, L1\<lparr>stack := stack L1 @ [LString (c_str out)]\<rparr>,
                   h\<lparr>log := log h @ [Converter_Call (c_str a), Alloc (fresh_addr (live h)),
                                      Release (fresh_addr (live h))]\<rparr>)
                else
                  (Inl Memory_Error, L1,
                   h\<lparr>live := (fresh_addr (live h), out) # live h,
                     log := log h @ [Converter_Call (c_str a), Alloc (fresh_addr (live h))]\<rparr>))))"
  by (simp add: lua_amath_to_mathml_mem_def luaL_checkstring_def amath_to_mathml_def
      block_at_def free_def luaL_error_def lua_pushstring_def Let_def filter_fresh
      split: prod.splits option.splits)

lemma to_mathml_cases:
  "lua_amath_to_mathml conv n2s L h =
     (case lua_tolstring n2s L 1 of
        (None, L1) \<Rightarrow> (Inl (Bad_Argument 1 ''string''), L1, h)
      | (Some a, L1) \<Rightarrow>
          (case conv (c_str a) of
             None \<Rightarrow>
               (Inl (Error_Message (caller_where L1 @
                       ''amath.to_mathml: conversion failed for input: '' @ c_str a)),
                L1, h\<lparr>log := log h @ [Converter_Call (c_str a)]\<rparr>)
           | Some out \<Rightarrow>
               (Inr 1, L1\<lparr>stack := stack L1 @ [LString (c_str out)]\<rparr>,
                h\<lparr>log := log h @ [Converter_Call (c_str a), Alloc (fresh_addr (live h)),
                                   Release (fresh_addr (live h))]\<rparr>)))"
  by (simp add: lua_amath_to_mathml_def to_mathml_mem_cases
      split: prod.splits option.splits)

lemma to_mathml_string_ok:
  assumes "index2value L 1 = Some (LString s)" and "conv (c_str s) = Some out"
  shows "lua_amath_to_mathml conv n2s L h =
           (Inr 1, L\<lparr>stack := stack L @ [LString (c_str out)]\<rparr>,
            h\<lparr>log := log h @ [Converter_Call (c_str s), Alloc (fresh_addr (live h)),
                               Release (fresh_addr (live h))]\<rparr>)"
  using assms tolstring_string [OF assms(1), of n2s]
  by (simp add: to_mathml_cases)

lemma to_mathml_string_null:
  assumes "index2value L 1 = Some (LString s)" and "conv (c_str s) = None"
  shows "lua_amath_to_mathml conv n2s L h =
           (Inl (Error_Message (caller_where L @
                   ''amath.to_mathml: conversion failed for input: '' @ c_str s)),
            L, h\<lparr>log := log h @ [Converter_Call (c_str s)]\<rparr>)"
  using assms tolstring_string [OF assms(1), of n2s]
  by (simp add: to_mathml_cases)

lemma to_mathml_number:
  assumes "index2value L 1 = Some (LNumber n)"
  shows "lua_amath_to_mathml conv n2s L h =
           lua_amath_to_mathml conv n2s (L\<lparr>stack := (stack L)[0 := LString (n2s n)]\<rparr>) h"
proof -
  let ?L = "L\<lparr>stack := (stack L)[0 := LString (n2s n)]\<rparr>"
  have "index2value ?L 1 = Some (LString (n2s n))"
    using assms by (rule index2value_coerced)
  then have "lua_tolstring n2s ?L 1 = (Some (n2s n), ?L)"
    by (rule tolstring_string)
  then show ?thesis
    using tolstring_number [OF assms, of n2s]
    by (simp add: to_mathml_cases)
qed

lemma to_mathml_bad_argument:
  assumes "\<not> lua_isstring L 1"
  shows "lua_amath_to_mathml conv n2s L h = (Inl (Bad_Argument 1 ''string''), L, h)"
  using tolstring_not_string [OF assms, of n2s] by (simp add: to_mathml_cases)

subsection \<open>The converter's buffer\<close>

text \<open>
  When the converter returns a buffer and the push is served, the events of the call
  are the converter call, one allocation and one release of the same address, which
  was not live before and is not live after; the live blocks are those of before.
\<close>

lemma buffer_released_when_push_served:
  assumes "lua_tolstring n2s L 1 = (Some a, L1)" and "conv (c_str a) = Some out"
  shows "case lua_amath_to_mathml_mem True conv n2s L h of
           (r, L', h') \<Rightarrow>
             events_of h h' =
               [Converter_Call (c_str a), Alloc (fresh_addr (live h)),
                Release (fresh_addr (live h))]
             \<and> block_at h (fresh_addr (live h)) = None
             \<and> block_at h' (fresh_addr (live h)) = None
             \<and> live h' = live h
             \<and> r = Inr 1
             \<and> L' = L1\<lparr>stack := stack L1 @ [LString (c_str out)]\<rparr>"
  using assms block_at_fresh [of h]
  by (simp add: to_mathml_mem_cases events_of_def block_at_def)

text \<open>
  When the converter returns a buffer and the push is not served, the call ends in
  the memory error after the allocation, and the buffer stays live.
\<close>

lemma buffer_live_after_memory_error:
  assumes "lua_tolstring n2s L 1 = (Some a, L1)" and "conv (c_str a) = Some out"
  shows "case lua_amath_to_mathml_mem False conv n2s L h of
           (r, L', h') \<Rightarrow>
             r = Inl Memory_Error
             \<and> events_of h h' = [Converter_Call (c_str a), Alloc (fresh_addr (live h))]
             \<and> block_at h (fresh_addr (live h)) = None
             \<and> block_at h' (fresh_addr (live h)) = Some out"
  using assms block_at_fresh [of h]
  by (simp add: to_mathml_mem_cases events_of_def block_at_def)

subsection \<open>C strings in messages\<close>

lemma sublist_c_str:
  "sublist (c_str s) (w @ ''amath.to_mathml: conversion failed for input: '' @ c_str s)"
  by (metis append_Nil2 sublist_appendI append_assoc)

lemma c_str_no_zero: "CHR 0x00 \<notin> set s \<Longrightarrow> c_str s = s"
  by (auto simp: c_str_def)

section \<open>The claims\<close>



text \<open>
  C2, as stated, fails: the converter and \<^verbatim>\<open>luaL_error\<close>'s \<^verbatim>\<open>%s\<close> read the argument
  as a C string, so of a Lua string with a zero byte inside only the part in front of
  that byte reaches the message.
\<close>

theorem conversion_error_verbatim_counterexample:
  "index2value
     (call_frame ''doc.lua:3: '' [LString [CHR ''a'', CHR 0x00, CHR ''b'']] :: int lua_State) 1
     = Some (LString [CHR ''a'', CHR 0x00, CHR ''b''])
   \<and> example_conv (c_str [CHR ''a'', CHR 0x00, CHR ''b'']) = None
   \<and> fst (lua_amath_to_mathml example_conv lua_integer_tostring
            (call_frame ''doc.lua:3: '' [LString [CHR ''a'', CHR 0x00, CHR ''b'']])
            empty_heap)
       = Inl (Error_Message ''doc.lua:3: amath.to_mathml: conversion failed for input: a'')
   \<and> \<not> sublist [CHR ''a'', CHR 0x00, CHR ''b'']
          ''doc.lua:3: amath.to_mathml: conversion failed for input: a''"
  by (simp add: index2value_def call_frame_def example_conv_def c_str_def
      to_mathml_cases lua_tolstring_def sublist_Cons_right)

text \<open>
  C2, amended. For every string argument on which the external converter returns
  \<^verbatim>\<open>NULL\<close> (the empty string included), the call raises the conversion error and
  returns no value; the Lua state is unchanged and the converter was called once. The
  message contains the argument up to its first zero byte, which is the whole argument
  when it holds no zero byte.
\<close>

theorem conversion_error_names_input:
  assumes "index2value L 1 = Some (LString s)" and "conv (c_str s) = None"
  shows "lua_amath_to_mathml conv n2s L h =
           (Inl (Error_Message (caller_where L @
                   ''amath.to_mathml: conversion failed for input: '' @ c_str s)),
            L, h\<lparr>log := log h @ [Converter_Call (c_str s)]\<rparr>)
         \<and> sublist (c_str s)
             (caller_where L @ ''amath.to_mathml: conversion failed for input: '' @ c_str s)
         \<and> (CHR 0x00 \<notin> set s \<longrightarrow> c_str s = s)"
  using to_mathml_string_null [where conv = conv, OF assms] sublist_c_str c_str_no_zero
  by simp

theorem conversion_error_names_input_witness:
  "index2value (call_frame ''doc.lua:3: '' [LString []] :: int lua_State) 1
     = Some (LString [])
   \<and> example_conv (c_str []) = None
   \<and> CHR 0x00 \<notin> set ([] :: string)
   \<and> lua_amath_to_mathml example_conv lua_integer_tostring
         (call_frame ''doc.lua:3: '' [LString []]) empty_heap =
       (Inl (Error_Message ''doc.lua:3: amath.to_mathml: conversion failed for input: ''),
        call_frame ''doc.lua:3: '' [LString []],
        \<lparr>live = [], log = [Converter_Call []]\<rparr>)
   \<and> sublist ([] :: string) ''doc.lua:3: amath.to_mathml: conversion failed for input: ''"
proof -
  let ?L = "call_frame ''doc.lua:3: '' [LString []] :: int lua_State"
  have arg: "index2value ?L 1 = Some (LString [])"
    by (simp add: index2value_def call_frame_def)
  have ans: "example_conv (c_str []) = None"
    by (simp add: example_conv_def c_str_def)
  show ?thesis
    using arg ans
      conversion_error_names_input
        [where conv = example_conv and ?n2s = lua_integer_tostring and h = empty_heap,
         OF arg ans]
    by (simp add: call_frame_def empty_heap_def c_str_def)
qed

text \<open>
  C3, as stated, fails: \<^verbatim>\<open>luaL_checkstring\<close> accepts a number. The number 42 is
  converted to the string \<^verbatim>\<open>"42"\<close>, the converter is called with it, and the call
  returns its answer; no argument error is raised.
\<close>

theorem number_argument_counterexample:
  "index2value (call_frame ''doc.lua:3: '' [LNumber (42 :: int)]) 1 = Some (LNumber 42)
   \<and> lua_amath_to_mathml example_conv lua_integer_tostring
         (call_frame ''doc.lua:3: '' [LNumber 42]) empty_heap =
       (Inr 1,
        call_frame ''doc.lua:3: '' [LString ''42'', LString ''<math><mn>42</mn></math>''],
        \<lparr>live = [], log = [Converter_Call ''42'', Alloc 1, Release 1]\<rparr>)"
  by (simp add: index2value_def call_frame_def example_conv_def c_str_def to_mathml_cases
      lua_tolstring_def empty_heap_def fresh_addr_def lua_integer_tostring_def)

text \<open>
  C3, amended. For every call whose first argument is missing or is neither a string
  nor a number, the call raises the argument error of argument 1; the Lua state and the
  C heap are as before the call, so the external converter was not called.
\<close>

theorem bad_argument_rejected:
  assumes "\<not> lua_isstring L 1"
  shows "lua_amath_to_mathml conv n2s L h = (Inl (Bad_Argument 1 ''string''), L, h)
         \<and> events_of h (snd (snd (lua_amath_to_mathml conv n2s L h))) = []"
  by (simp add: to_mathml_bad_argument [OF assms] events_of_def)

theorem bad_argument_rejected_witness:
  "\<not> lua_isstring (call_frame ''doc.lua:3: '' [LBoolean True] :: int lua_State) 1
   \<and> \<not> lua_isstring (call_frame ''doc.lua:3: '' [] :: int lua_State) 1
   \<and> lua_amath_to_mathml example_conv lua_integer_tostring
         (call_frame ''doc.lua:3: '' [LBoolean True]) empty_heap =
       (Inl (Bad_Argument 1 ''string''), call_frame ''doc.lua:3: '' [LBoolean True],
        empty_heap)
   \<and> lua_amath_to_mathml example_conv lua_integer_tostring
         (call_frame ''doc.lua:3: '' []) empty_heap =
       (Inl (Bad_Argument 1 ''string''), call_frame ''doc.lua:3: '' [], empty_heap)"
proof -
  have wrong: "\<not> lua_isstring (call_frame ''doc.lua:3: '' [LBoolean True] :: int lua_State) 1"
    by (simp add: lua_isstring_def index2value_def call_frame_def)
  have missing: "\<not> lua_isstring (call_frame ''doc.lua:3: '' [] :: int lua_State) 1"
    by (simp add: lua_isstring_def index2value_def call_frame_def)
  show ?thesis
    using wrong missing
      bad_argument_rejected [OF wrong, of example_conv lua_integer_tostring empty_heap]
      bad_argument_rejected [OF missing, of example_conv lua_integer_tostring empty_heap]
    by simp
qed

text \<open>
  C4. The binding is to release the converter's buffer on every call that received
  one; its own comment at the release reads \<^verbatim>\<open>CRITICAL: Free the allocated memory
  immediately after pushing to Lua\<close>. It does so when the push is served
  (\<open>buffer_released_when_push_served\<close>). But \<^verbatim>\<open>lua_pushstring\<close> stands between the
  converter's allocation and \<^verbatim>\<open>free(mathml)\<close>, and its memory error leaves the
  function in front of the release. For the input \<^verbatim>\<open>x^2\<close> and a Lua allocator that
  cannot serve the push, the call ends in the memory error with one allocation, no
  release, and the buffer still live.
\<close>

theorem push_memory_error_leaks_buffer:
  "lua_amath_to_mathml_mem False example_conv lua_integer_tostring
     (call_frame ''doc.lua:3: '' [LString ''x^2'']) empty_heap =
   (Inl Memory_Error,
    call_frame ''doc.lua:3: '' [LString ''x^2''],
    \<lparr>live = [(1, ''<math><msup><mi>x</mi><mn>2</mn></msup></math>'')],
     log = [Converter_Call ''x^2'', Alloc 1]\<rparr>)"
  by (simp add: to_mathml_mem_cases lua_tolstring_def index2value_def call_frame_def
      example_conv_def c_str_def empty_heap_def fresh_addr_def)




text \<open>
  C6. On every call with a string argument, successful or not, the argument is still
  in its stack slot, unchanged, when the call ends, as is everything else the caller
  put on the stack.
\<close>

theorem input_string_unchanged:
  assumes "index2value L 1 = Some (LString s)"
  shows "case lua_amath_to_mathml conv n2s L h of
           (r, L', h') \<Rightarrow>
             index2value L' 1 = Some (LString s)
             \<and> take (length (stack L)) (stack L') = stack L"
proof (cases "conv (c_str s)")
  case None
  show ?thesis
    using assms by (simp add: to_mathml_string_null [where conv = conv, OF assms None])
next
  case (Some out)
  show ?thesis
    using index2value_push [OF assms]
    by (simp add: to_mathml_string_ok [where conv = conv, OF assms Some])
qed

theorem input_string_unchanged_witness:
  "index2value (call_frame ''doc.lua:3: '' [LString ''x^2''] :: int lua_State) 1
     = Some (LString ''x^2'')
   \<and> index2value
        (fst (snd (lua_amath_to_mathml example_conv lua_integer_tostring
           (call_frame ''doc.lua:3: '' [LString ''x^2'']) empty_heap))) 1
     = Some (LString ''x^2'')"
proof -
  let ?L = "call_frame ''doc.lua:3: '' [LString ''x^2''] :: int lua_State"
  have arg: "index2value ?L 1 = Some (LString ''x^2'')"
    by (simp add: index2value_def call_frame_def)
  show ?thesis
    using arg
      input_string_unchanged
        [where conv = example_conv and ?n2s = lua_integer_tostring and h = empty_heap,
         OF arg]
    by (simp split: prod.splits)
qed

text \<open>
  C8. On every call the external converter is called at most once. Whenever the call
  raises an error, that error is the argument error or a message of \<^verbatim>\<open>luaL_error\<close>,
  nothing has been pushed on the stack, no block has been allocated or released, and
  the live blocks are those of before the call.
\<close>

theorem conversion_all_or_nothing:
  "case lua_amath_to_mathml conv n2s L h of
     (r, L', h') \<Rightarrow>
       length (filter is_converter_call (events_of h h')) \<le> 1
       \<and> (\<forall>e. r = Inl e \<longrightarrow>
             (e = Bad_Argument 1 ''string'' \<or> (\<exists>m. e = Error_Message m))
             \<and> length (stack L') = length (stack L)
             \<and> filter (\<lambda>ev. \<not> is_converter_call ev) (events_of h h') = []
             \<and> live h' = live h)"
proof -
  obtain p L1 where t: "lua_tolstring n2s L 1 = (p, L1)"
    by (cases "lua_tolstring n2s L 1")
  have len: "length (stack L1) = length (stack L)"
    using tolstring_frame [OF t] by simp
  show ?thesis
  proof (cases p)
    case None
    with t len show ?thesis by (simp add: to_mathml_cases events_of_def)
  next
    case (Some a)
    with t len show ?thesis
      by (cases "conv (c_str a)") (simp_all add: to_mathml_cases events_of_def)
  qed
qed

theorem conversion_all_or_nothing_witness:
  "lua_amath_to_mathml example_conv lua_integer_tostring
       (call_frame ''doc.lua:3: '' [LString ''x^3'']) empty_heap
     = (Inl (Error_Message ''doc.lua:3: amath.to_mathml: conversion failed for input: x^3''),
        call_frame ''doc.lua:3: '' [LString ''x^3''],
        \<lparr>live = [], log = [Converter_Call ''x^3'']\<rparr>)
   \<and> length (stack (call_frame ''doc.lua:3: '' [LString ''x^3''] :: int lua_State)) = 1
   \<and> filter (\<lambda>ev. \<not> is_converter_call ev)
        (events_of empty_heap \<lparr>live = [], log = [Converter_Call ''x^3'']\<rparr>) = []"
  using conversion_all_or_nothing
    [where conv = example_conv and ?n2s = lua_integer_tostring and h = empty_heap
       and L = "call_frame ''doc.lua:3: '' [LString ''x^3''] :: int lua_State"]
  by (simp add: to_mathml_cases lua_tolstring_def index2value_def call_frame_def
      example_conv_def c_str_def empty_heap_def events_of_def)

text \<open>
  C9. Whenever \<^verbatim>\<open>luaL_checkstring\<close> returns, the pointer it returns is not null; so no
  call raises the message \<^verbatim>\<open>amath.to_mathml: expected string argument\<close> of the branch
  behind the null check.
\<close>

theorem null_check_unreachable:
  "(\<forall>p L'. luaL_checkstring n2s L arg = (Inr p, L') \<longrightarrow> p \<noteq> None)
   \<and> fst (lua_amath_to_mathml conv n2s L h)
       \<noteq> Inl (Error_Message (caller_where L @ ''amath.to_mathml: expected string argument''))"
proof
  show "\<forall>p L'. luaL_checkstring n2s L arg = (Inr p, L') \<longrightarrow> p \<noteq> None"
    by (auto simp: luaL_checkstring_def split: prod.splits option.splits)
next
  obtain p L1 where t: "lua_tolstring n2s L 1 = (p, L1)"
    by (cases "lua_tolstring n2s L 1")
  have pos: "caller_where L1 = caller_where L"
    using tolstring_frame [OF t] by simp
  show "fst (lua_amath_to_mathml conv n2s L h)
          \<noteq> Inl (Error_Message (caller_where L @ ''amath.to_mathml: expected string argument''))"
    using t pos by (simp add: to_mathml_cases split: option.splits)
qed

theorem null_check_unreachable_witness:
  "luaL_checkstring lua_integer_tostring
       (call_frame ''doc.lua:3: '' [LString ''x^2''] :: int lua_State) 1
     = (Inr (Some ''x^2''), call_frame ''doc.lua:3: '' [LString ''x^2''])
   \<and> Some ''x^2'' \<noteq> None
   \<and> fst (lua_amath_to_mathml example_conv lua_integer_tostring
            (call_frame ''doc.lua:3: '' [LString ''x^2'']) empty_heap)
       \<noteq> Inl (Error_Message ''doc.lua:3: amath.to_mathml: expected string argument'')"
proof -
  let ?L = "call_frame ''doc.lua:3: '' [LString ''x^2''] :: int lua_State"
  have ret: "luaL_checkstring lua_integer_tostring ?L 1 = (Inr (Some ''x^2''), ?L)"
    by (simp add: luaL_checkstring_def lua_tolstring_def index2value_def call_frame_def)
  have pos: "caller_where ?L = ''doc.lua:3: ''"
    by (simp add: call_frame_def)
  show ?thesis
    using ret pos
      null_check_unreachable
        [where conv = example_conv and ?n2s = lua_integer_tostring and h = empty_heap
           and L = ?L and arg = 1]
    by simp
qed

text \<open>
  C10. On every call whose first argument is a number, the number is converted to its
  string in the stack slot, and the call is from there on the call with that string as
  its argument: same outcome, same final Lua state, same final C heap. The converter is
  called with that string, and the call does not end in the argument error.
\<close>

theorem number_argument_coerced:
  assumes "index2value L 1 = Some (LNumber n)"
  shows "lua_amath_to_mathml conv n2s L h
           = lua_amath_to_mathml conv n2s (L\<lparr>stack := (stack L)[0 := LString (n2s n)]\<rparr>) h
         \<and> index2value (L\<lparr>stack := (stack L)[0 := LString (n2s n)]\<rparr>) 1
             = Some (LString (n2s n))
         \<and> take 1 (events_of h (snd (snd (lua_amath_to_mathml conv n2s L h))))
             = [Converter_Call (c_str (n2s n))]
         \<and> fst (lua_amath_to_mathml conv n2s L h) \<noteq> Inl (Bad_Argument 1 ''string'')"
proof -
  have "take 1 (events_of h (snd (snd (lua_amath_to_mathml conv n2s L h))))
          = [Converter_Call (c_str (n2s n))]
        \<and> fst (lua_amath_to_mathml conv n2s L h) \<noteq> Inl (Bad_Argument 1 ''string'')"
    using tolstring_number [OF assms, of n2s]
    by (simp add: to_mathml_cases events_of_def split: option.splits)
  then show ?thesis
    using to_mathml_number [OF assms, of conv n2s h] index2value_coerced [OF assms] by simp
qed

theorem number_argument_coerced_witness:
  "index2value (call_frame ''doc.lua:3: '' [LNumber (42 :: int)]) 1 = Some (LNumber 42)
   \<and> lua_amath_to_mathml example_conv lua_integer_tostring
         (call_frame ''doc.lua:3: '' [LNumber 42]) empty_heap
       = lua_amath_to_mathml example_conv lua_integer_tostring
           (call_frame ''doc.lua:3: '' [LString ''42'']) empty_heap
   \<and> take 1 (events_of empty_heap
        (snd (snd (lua_amath_to_mathml example_conv lua_integer_tostring
           (call_frame ''doc.lua:3: '' [LNumber 42]) empty_heap))))
       = [Converter_Call ''42'']"
proof -
  let ?L = "call_frame ''doc.lua:3: '' [LNumber (42 :: int)]"
  have arg: "index2value ?L 1 = Some (LNumber 42)"
    by (simp add: index2value_def call_frame_def)
  have str: "lua_integer_tostring 42 = ''42''"
    by (simp add: lua_integer_tostring_def)
  have cstr: "c_str ''42'' = ''42''"
    by (simp add: c_str_def)
  have slot: "?L\<lparr>stack := (stack ?L)[0 := LString ''42'']\<rparr>
                = call_frame ''doc.lua:3: '' [LString ''42'']"
    by (simp add: call_frame_def)
  note inst =
    number_argument_coerced
      [where conv = example_conv and ?n2s = lua_integer_tostring and h = empty_heap,
       OF arg, unfolded str cstr slot]
  show ?thesis
    using arg inst by blast
qed

text \<open>
  C7, as stated, fails for a build against Lua 5.1, where the call is the library's
  \<^verbatim>\<open>luaL_register\<close>: that function reuses a table it finds in the global variable
  \<^verbatim>\<open>amath\<close>, so the module table returned here holds a second entry.
\<close>

theorem module_table_reused_counterexample:
  "fst (luaopen_amath 501 script_with_global) = Inr 1
   \<and> results 1 (snd (luaopen_amath 501 script_with_global)) = [LTable 0]
   \<and> (tables (snd (luaopen_amath 501 script_with_global)) ! 0) (LString ''to_mathml'')
       = Some (LCFunction Lua_amath_to_mathml)
   \<and> (tables (snd (luaopen_amath 501 script_with_global)) ! 0) (LString ''version'')
       = Some (LString ''1.0'')"
  by (simp add: luaopen_amath_def luaL_register_def luaL_setfuncs_def getfield_def
      script_with_global_def amathlib_def results_def)

text \<open>
  C7, amended. Built against Lua 5.2 or later, module initialisation returns exactly
  one value, a new table whose only entry is the conversion function under the name
  \<^verbatim>\<open>to_mathml\<close>, and changes nothing else of the Lua state. Built against Lua 5.1 it
  does the same whenever \<^verbatim>\<open>package.loaded.amath\<close> holds no table and the global
  \<^verbatim>\<open>amath\<close> is not set, and then also stores the new table in both, as registration
  under Lua 5.1 does.
\<close>

theorem module_init_registers_one_function:
  "(501 < LUA_VERSION_NUM \<longrightarrow>
      luaopen_amath LUA_VERSION_NUM L =
        (Inr 1,
         L\<lparr>stack := stack L @ [LTable (length (tables L))],
           tables := tables L @ [[LString ''to_mathml'' \<mapsto> LCFunction Lua_amath_to_mathml]]\<rparr>))
   \<and> (LUA_VERSION_NUM \<le> 501 \<and> \<not> is_table (getfield (loaded L) ''amath'')
        \<and> getfield (globals L) ''amath'' = LNil \<longrightarrow>
      luaopen_amath LUA_VERSION_NUM L =
        (Inr 1,
         L\<lparr>stack := stack L @ [LTable (length (tables L))],
           tables := tables L @ [[LString ''to_mathml'' \<mapsto> LCFunction Lua_amath_to_mathml]],
           globals := (globals L)(''amath'' \<mapsto> LTable (length (tables L))),
           loaded := (loaded L)(''amath'' \<mapsto> LTable (length (tables L)))\<rparr>))
   \<and> dom ([LString ''to_mathml'' \<mapsto> LCFunction Lua_amath_to_mathml] :: 'n lua_table)
        = {LString ''to_mathml''}"
proof (intro conjI impI)
  assume "501 < LUA_VERSION_NUM"
  then show "luaopen_amath LUA_VERSION_NUM L =
        (Inr 1,
         L\<lparr>stack := stack L @ [LTable (length (tables L))],
           tables := tables L @ [[LString ''to_mathml'' \<mapsto> LCFunction Lua_amath_to_mathml]]\<rparr>)"
    by (simp add: luaopen_amath_def lua_newtable_def luaL_setfuncs_def amathlib_def)
next
  assume old: "LUA_VERSION_NUM \<le> 501 \<and> \<not> is_table (getfield (loaded L) ''amath'')
        \<and> getfield (globals L) ''amath'' = LNil"
  then have "\<not> 501 < LUA_VERSION_NUM" by simp
  with old show "luaopen_amath LUA_VERSION_NUM L =
        (Inr 1,
         L\<lparr>stack := stack L @ [LTable (length (tables L))],
           tables := tables L @ [[LString ''to_mathml'' \<mapsto> LCFunction Lua_amath_to_mathml]],
           globals := (globals L)(''amath'' \<mapsto> LTable (length (tables L))),
           loaded := (loaded L)(''amath'' \<mapsto> LTable (length (tables L)))\<rparr>)"
    by (cases "getfield (loaded L) ''amath''")
      (simp_all add: luaopen_amath_def luaL_register_def luaL_setfuncs_def amathlib_def)
next
  show "dom ([LString ''to_mathml'' \<mapsto> LCFunction Lua_amath_to_mathml] :: 'n lua_table)
        = {LString ''to_mathml''}"
    by simp
qed

theorem module_init_registers_one_function_witness:
  "(501 :: nat) < 504
   \<and> luaopen_amath 504 (call_frame [] [LString ''amath''] :: int lua_State) =
       (Inr 1,
        \<lparr>stack = [LString ''amath'', LTable 0], caller_where = [],
         tables = [[LString ''to_mathml'' \<mapsto> LCFunction Lua_amath_to_mathml]],
         globals = Map.empty, loaded = Map.empty\<rparr>)
   \<and> (501 :: nat) \<le> 501
   \<and> \<not> is_table (getfield [''amath'' \<mapsto> LLightUserdata 0 :: int lua_value] ''amath'')
   \<and> getfield (Map.empty :: string \<rightharpoonup> int lua_value) ''amath'' = LNil
   \<and> luaopen_amath 501
         \<lparr>stack = [LString ''amath''], caller_where = [], tables = [],
          globals = Map.empty, loaded = [''amath'' \<mapsto> LLightUserdata 0 :: int lua_value]\<rparr> =
       (Inr 1,
        \<lparr>stack = [LString ''amath'', LTable 0], caller_where = [],
         tables = [[LString ''to_mathml'' \<mapsto> LCFunction Lua_amath_to_mathml]],
         globals = [''amath'' \<mapsto> LTable 0], loaded = [''amath'' \<mapsto> LTable 0]\<rparr>)"
proof -
  let ?new = "call_frame [] [LString ''amath''] :: int lua_State"
  let ?old = "\<lparr>stack = [LString ''amath''], caller_where = [], tables = [],
          globals = Map.empty, loaded = [''amath'' \<mapsto> LLightUserdata 0 :: int lua_value]\<rparr>"
  have sentinel:
    "\<not> is_table (getfield [''amath'' \<mapsto> LLightUserdata 0 :: int lua_value] ''amath'')"
    by (simp add: getfield_def)
  have unset: "getfield (Map.empty :: string \<rightharpoonup> int lua_value) ''amath'' = LNil"
    by (simp add: getfield_def)
  show ?thesis
    using sentinel unset
      module_init_registers_one_function [where L = ?new and LUA_VERSION_NUM = 504]
      module_init_registers_one_function [where L = ?old and LUA_VERSION_NUM = 501]
    by (simp add: call_frame_def)
qed

end
